theory Spec2Isabelle
  imports Complex_Main
begin

section \<open>The linear-model evaluator of \<^verbatim>\<open>src/tlo/lm.py\<close>\<close>

text \<open>
  The source defines two classes. A \<^verbatim>\<open>Predictor\<close> collects an ordered list of
  (condition, coefficient) rules through \<^verbatim>\<open>when\<close> and \<^verbatim>\<open>otherwise\<close>, and
  \<^verbatim>\<open>Predictor.predict\<close> turns a table into one column by evaluating the condition
  texts one after the other. A \<^verbatim>\<open>LinearModel\<close> owns an intercept and a list of
  predictors and combines their columns row by row.

  Conventions of the embedding:
  \<^item> Python exceptions are values of the type \<open>error\<close>; every function that can raise
    returns \<open>error + 'a\<close> with \<open>Inl\<close> for the exception.
  \<^item> Python strings are \<open>string\<close>; only ASCII text is modelled.
  \<^item> Coefficients and intercepts are real numbers: the rounding of floating-point
    arithmetic is not modelled. A missing entry of a column (\<^verbatim>\<open>NaN\<close>) is \<open>None\<close>.
  \<^item> The \<^verbatim>\<open>print\<close> calls of the source only write a trace and are left out.
\<close>

subsection \<open>Python values and exceptions\<close>

text \<open>
  The arguments that \<^verbatim>\<open>when\<close> may receive as a condition. \<open>PyOther b\<close> stands for an
  object of any other type (a list, a dict, ...) whose truth value is \<open>b\<close>.
  Floating-point conditions are not modelled: a \<^verbatim>\<open>numbers.Number\<close> is an integer here.
\<close>

datatype pyval = PyStr string | PyBool bool | PyInt int | PyNone | PyOther bool

text \<open>
  The exceptions. \<open>AssertionError\<close> carries the message of the failed \<^verbatim>\<open>assert\<close>;
  the source has no exception classes of its own, all its checks are assertions but
  the \<^verbatim>\<open>RuntimeError\<close> of \<^verbatim>\<open>_coeff\<close>. \<open>SyntaxError\<close> and
  \<open>UndefinedVariableError\<close> come from the evaluation of condition texts.
  \<open>Unsupported\<close> marks text or cells outside the modelled fragment of that
  evaluation, and \<open>OutOfFuel\<close> is the value of the parser at recursion bound zero,
  which \<open>parse\<close> never returns (lemma \<open>parse_never_out_of_fuel\<close>).
\<close>

datatype error =
    AssertionError string
  | IndexError
  | RuntimeError
  | TypeError
  | SyntaxError
  | UndefinedVariableError string
  | Unsupported
  | OutOfFuel

text \<open>The text of an integer as an f-string renders it (\<^verbatim>\<open>f'{n}'\<close>).\<close>

fun str_nat :: "nat \<Rightarrow> string" where
  "str_nat n =
     (if n < 10 then [''0123456789'' ! n]
      else str_nat (n div 10) @ [''0123456789'' ! (n mod 10)])"

declare str_nat.simps [simp del]

definition str_int :: "int \<Rightarrow> string" where
  "str_int i = (if i < 0 then CHR ''-'' # str_nat (nat (- i)) else str_nat (nat i))"

text \<open>\<^verbatim>\<open>str.isnumeric\<close> on ASCII text: non-empty and decimal digits only.\<close>

definition isnumeric :: "string \<Rightarrow> bool" where
  "isnumeric s = (s \<noteq> [] \<and> list_all (\<lambda>c. c \<in> set ''0123456789'') s)"

subsection \<open>Predictor: construction\<close>

text \<open>
  \<open>ident\<close> is the identity of the Python object: \<^verbatim>\<open>LinearModel.predict\<close> uses the
  predictor object itself as a column label, and objects hash by identity.
\<close>

record Predictor =
  ident :: nat
  property_name :: "string option"
  conditions :: "(pyval \<times> real) list"
  else_condition_supplied :: bool

definition Predictor_init :: "nat \<Rightarrow> string option \<Rightarrow> Predictor" where
  "Predictor_init oid name =
     \<lparr>ident = oid, property_name = name, conditions = [], else_condition_supplied = False\<rparr>"

text \<open>The double-quote character of the generated condition text.\<close>

definition dquote :: char where
  "dquote = CHR 0x22"

text \<open>The two shapes of \<^verbatim>\<open>*args\<close> that \<^verbatim>\<open>_coeff\<close> is called with.\<close>

datatype coeff_args = Args2 pyval real | Args1 real

definition append_condition :: "Predictor \<Rightarrow> pyval \<Rightarrow> real \<Rightarrow> Predictor" where
  "append_condition p c v = p\<lparr>conditions := conditions p @ [(c, v)]\<rparr>"

definition Predictor_coeff :: "Predictor \<Rightarrow> coeff_args \<Rightarrow> error + Predictor" where
  "Predictor_coeff p args =
     (let (condition, coefficient) =
            (case args of Args2 c v \<Rightarrow> (c, v) | Args1 v \<Rightarrow> (PyNone, v))
      in case property_name p of
           None \<Rightarrow> Inr (append_condition p condition coefficient)
         | Some name \<Rightarrow>
            (case condition of
               PyStr s \<Rightarrow>
                 (case s of
                    [] \<Rightarrow> Inl IndexError
                  | c0 # _ \<Rightarrow>
                      if c0 \<in> set ''=<>~(.''
                      then Inr (append_condition p
                                  (PyStr (''('' @ name @ s @ '')'')) coefficient)
                      else if isnumeric s
                      then Inr (append_condition p
                                  (PyStr (''('' @ name @ '' == '' @ s @ '')'')) coefficient)
                      else Inr (append_condition p
                                  (PyStr (''('' @ name @ '' == '' @ [dquote] @ s @ [dquote] @ '')''))
                                  coefficient))
             | PyBool b \<Rightarrow>
                 if b
                 then Inr (append_condition p (PyStr (''('' @ name @ '' == True)'')) coefficient)
                 else Inr (append_condition p (PyStr (''('' @ name @ '' == False)'')) coefficient)
             | PyInt n \<Rightarrow>
                 Inr (append_condition p (PyStr (''('' @ name @ '' == '' @ str_int n)) coefficient)
             | PyNone \<Rightarrow>
                 if else_condition_supplied p
                 then Inl (AssertionError
                             ''You can only give one unconditioned value to predictor'')
                 else Inr (append_condition (p\<lparr>else_condition_supplied := True\<rparr>)
                             (PyStr '''') coefficient)
             | PyOther _ \<Rightarrow> Inl RuntimeError))"

definition Predictor_when :: "Predictor \<Rightarrow> pyval \<Rightarrow> real \<Rightarrow> error + Predictor" where
  "Predictor_when p condition v = Predictor_coeff p (Args2 condition v)"

definition Predictor_otherwise :: "Predictor \<Rightarrow> real \<Rightarrow> error + Predictor" where
  "Predictor_otherwise p v =
     (if property_name p = None
      then Inl (AssertionError ''Can't use `otherwise` condition on unnamed Predictor'')
      else Predictor_coeff p (Args1 v))"

text \<open>
  A predictor is written as a chain of calls,
  \<^verbatim>\<open>Predictor(name).when(c1, v1).when(c2, v2).otherwise(v)\<close>; every call returns the
  object it was called on. \<open>build\<close> runs such a chain and stops at the first call that
  raises.
\<close>

datatype builder_call = is_When: When pyval real | is_Otherwise: Otherwise real

fun build :: "Predictor \<Rightarrow> builder_call list \<Rightarrow> error + Predictor" where
  "build p [] = Inr p"
| "build p (When condition v # calls) =
     (case Predictor_when p condition v of Inl e \<Rightarrow> Inl e | Inr p' \<Rightarrow> build p' calls)"
| "build p (Otherwise v # calls) =
     (case Predictor_otherwise p v of Inl e \<Rightarrow> Inl e | Inr p' \<Rightarrow> build p' calls)"

subsection \<open>The condition language of \<^verbatim>\<open>DataFrame.eval\<close>\<close>

text \<open>
  \<^verbatim>\<open>Predictor.predict\<close> hands every condition, as text, to \<^verbatim>\<open>df.eval\<close> of the
  pandas library. The source of pandas is not part of the repository, so the part of
  its expression language that the conditions use is modelled here: names of columns,
  the local variable \<^verbatim>\<open>@touched\<close>, integer, string and boolean literals, the six
  comparisons, \<^verbatim>\<open>~\<close>, \<^verbatim>\<open>&\<close>, \<^verbatim>\<open>|\<close>, \<^verbatim>\<open>not\<close>, \<^verbatim>\<open>and\<close>, \<^verbatim>\<open>or\<close>,
  parentheses, and the calls \<^verbatim>\<open>.mean()\<close>, \<^verbatim>\<open>.max()\<close>, \<^verbatim>\<open>.min()\<close> and
  \<^verbatim>\<open>.sum()\<close> on a column, which aggregate the whole column. The grammar is Python's, with the one change that pandas makes before
  parsing: \<^verbatim>\<open>&\<close> and \<^verbatim>\<open>|\<close> are read as \<^verbatim>\<open>and\<close> and \<^verbatim>\<open>or\<close>, so they bind
  weaker than a comparison, and \<^verbatim>\<open>and\<close> binds tighter than \<^verbatim>\<open>or\<close>.

  Text outside this fragment (arithmetic, other method calls, attribute access, lists,
  floating-point literals, chained comparisons, ...) is answered with the error
  \<open>Unsupported\<close>: the model takes no position on it. \<open>SyntaxError\<close> is returned only
  for text over the modelled tokens that Python's grammar rejects.
\<close>

text \<open>
  The lexer. Reserved words of Python other than the ones modelled are outside the
  fragment, and so are string prefixes, escapes and numbers that are not plain decimal
  integers.
\<close>

datatype cmpop = Eq | NotEq | Lt | LtE | Gt | GtE

datatype token =
    TLParen | TRParen | TAnd | TOr | TInvert | TNot
  | TCmp cmpop | TName string | TLocal string | TNum nat | TStr string | TConst bool
  | TDot

definition is_digit :: "char \<Rightarrow> bool" where
  "is_digit c = (c \<in> set ''0123456789'')"

definition is_name_start :: "char \<Rightarrow> bool" where
  "is_name_start c = (c \<in> set ''abcdefghijklmnopqrstuvwxyzABCDEFGHIJKLMNOPQRSTUVWXYZ_'')"

definition is_name_char :: "char \<Rightarrow> bool" where
  "is_name_char c = (is_name_start c \<or> is_digit c)"

definition digit_val :: "char \<Rightarrow> nat" where
  "digit_val c = of_char c - 48"

definition nat_of_digits :: "string \<Rightarrow> nat" where
  "nat_of_digits ds = foldl (\<lambda>a c. 10 * a + digit_val c) 0 ds"

definition other_keywords :: "string list" where
  "other_keywords =
     [''None'', ''as'', ''assert'', ''async'', ''await'', ''break'', ''class'', ''continue'',
      ''def'', ''del'', ''elif'', ''else'', ''except'', ''finally'', ''for'', ''from'',
      ''global'', ''if'', ''import'', ''in'', ''is'', ''lambda'', ''nonlocal'', ''pass'',
      ''raise'', ''return'', ''try'', ''while'', ''with'', ''yield'']"

definition name_token :: "string \<Rightarrow> error + token" where
  "name_token w =
     (if w = ''and'' then Inr TAnd
      else if w = ''or'' then Inr TOr
      else if w = ''not'' then Inr TNot
      else if w = ''True'' then Inr (TConst True)
      else if w = ''False'' then Inr (TConst False)
      else if w \<in> set other_keywords then Inl Unsupported
      else Inr (TName w))"

text \<open>
  The first token of \<open>c # cs\<close> (none for white space) and the number of characters of
  \<open>cs\<close> that belong to it.
\<close>

definition next_token :: "char \<Rightarrow> string \<Rightarrow> error + (token option \<times> nat)" where
  "next_token c cs =
     (if c = CHR '' '' \<or> c = CHR 0x09 then Inr (None, 0)
      else if c = CHR ''('' then Inr (Some TLParen, 0)
      else if c = CHR '')'' then Inr (Some TRParen, 0)
      else if c = CHR ''&'' then Inr (Some TAnd, 0)
      else if c = CHR ''|'' then Inr (Some TOr, 0)
      else if c = CHR ''~'' then Inr (Some TInvert, 0)
      else if c = CHR ''='' then
        (if take 1 cs = ''='' then Inr (Some (TCmp Eq), 1) else Inl Unsupported)
      else if c = CHR ''!'' then
        (if take 1 cs = ''='' then Inr (Some (TCmp NotEq), 1) else Inl Unsupported)
      else if c = CHR ''<'' then
        (if take 1 cs = ''='' then Inr (Some (TCmp LtE), 1)
         else if take 1 cs = ''<'' \<or> take 1 cs = ''>'' then Inl Unsupported
         else Inr (Some (TCmp Lt), 0))
      else if c = CHR ''>'' then
        (if take 1 cs = ''='' then Inr (Some (TCmp GtE), 1)
         else if take 1 cs = ''>'' then Inl Unsupported
         else Inr (Some (TCmp Gt), 0))
      else if c = CHR ''@'' then
        (if list_ex is_name_start (take 1 cs)
         then Inr (Some (TLocal (takeWhile is_name_char cs)),
                   length (takeWhile is_name_char cs))
         else Inl Unsupported)
      else if c = dquote \<or> c = CHR 0x27 then
        (if c \<notin> set cs then Inl SyntaxError
         else if list_ex (\<lambda>d. d = CHR 0x5C \<or> d = CHR 0x0A) (takeWhile (\<lambda>d. d \<noteq> c) cs)
         then Inl Unsupported
         else Inr (Some (TStr (takeWhile (\<lambda>d. d \<noteq> c) cs)),
                   Suc (length (takeWhile (\<lambda>d. d \<noteq> c) cs))))
      else if c = CHR ''.'' then
        (if list_ex (\<lambda>d. is_digit d \<or> d = CHR ''.'') (take 1 cs) then Inl Unsupported
         else Inr (Some TDot, 0))
      else if is_digit c then
        (if list_ex (\<lambda>d. is_name_char d \<or> d = CHR ''.'') (take 1 (dropWhile is_digit cs))
         then Inl Unsupported
         else if c = CHR ''0'' \<and> takeWhile is_digit cs \<noteq> [] then Inl Unsupported
         else Inr (Some (TNum (nat_of_digits (c # takeWhile is_digit cs))),
                   length (takeWhile is_digit cs)))
      else if is_name_start c then
        (if list_ex (\<lambda>d. d = dquote \<or> d = CHR 0x27) (take 1 (dropWhile is_name_char cs))
         then Inl Unsupported
         else (case name_token (c # takeWhile is_name_char cs) of
                 Inl e \<Rightarrow> Inl e
               | Inr t \<Rightarrow> Inr (Some t, length (takeWhile is_name_char cs))))
      else Inl Unsupported)"

function tokenize :: "string \<Rightarrow> error + token list" where
  "tokenize [] = Inr []"
| "tokenize (c # cs) =
     (case next_token c cs of
        Inl e \<Rightarrow> Inl e
      | Inr (t, k) \<Rightarrow>
          (case tokenize (drop k cs) of
             Inl e \<Rightarrow> Inl e
           | Inr ts \<Rightarrow> Inr (case t of None \<Rightarrow> ts | Some x \<Rightarrow> x # ts)))"
  by pat_completeness auto
termination
  by (relation "measure length") simp_all

text \<open>
  The parser is a recursive descent over Python's rules \<^verbatim>\<open>or_test\<close>,
  \<^verbatim>\<open>and_test\<close>, \<^verbatim>\<open>not_test\<close>, \<^verbatim>\<open>comparison\<close>, \<^verbatim>\<open>factor\<close> and \<^verbatim>\<open>atom\<close>.
  \<open>OrRest l\<close> and \<open>AndRest l\<close> are the loops that extend the left operand \<open>l\<close>.
  The first argument bounds the depth of the recursion; \<open>parse\<close> starts it with
  eight steps per token. pandas evaluates \<^verbatim>\<open>not\<close> as \<^verbatim>\<open>~\<close>, so both become
  \<open>Invert\<close>.
\<close>

datatype aggfun = AggMean | AggMax | AggMin | AggSum

definition aggregate_of_name :: "string \<Rightarrow> aggfun option" where
  "aggregate_of_name m =
     (if m = ''mean'' then Some AggMean
      else if m = ''max'' then Some AggMax
      else if m = ''min'' then Some AggMin
      else if m = ''sum'' then Some AggSum
      else None)"

datatype expr =
    Col string
  | Local string
  | Num nat
  | Str string
  | Const bool
  | Compare cmpop expr expr
  | Invert expr
  | BoolAnd expr expr
  | BoolOr expr expr
  | Agg aggfun string

datatype rule_name =
    OrTest | OrRest expr | AndTest | AndRest expr | NotTest | Comparison | Factor | Atom

definition trailer :: "expr \<Rightarrow> token list \<Rightarrow> error + (expr \<times> token list)" where
  "trailer x ts =
     (case ts of
        TLParen # _ \<Rightarrow> Inl Unsupported
      | TDot # _ \<Rightarrow> Inl Unsupported
      | _ \<Rightarrow> Inr (x, ts))"

text \<open>A call without arguments of a method, \<^verbatim>\<open>.m()\<close>, at the head of the tokens.\<close>

fun method_call :: "token list \<Rightarrow> (string \<times> token list) option" where
  "method_call (TDot # TName m # TLParen # TRParen # r) = Some (m, r)"
| "method_call _ = None"

fun parse_nt :: "nat \<Rightarrow> rule_name \<Rightarrow> token list \<Rightarrow> error + (expr \<times> token list)" where
  "parse_nt 0 _ ts = Inl OutOfFuel"
| "parse_nt (Suc n) OrTest ts =
     (case parse_nt n AndTest ts of
        Inl e \<Rightarrow> Inl e
      | Inr (l, r) \<Rightarrow> parse_nt n (OrRest l) r)"
| "parse_nt (Suc n) (OrRest l) ts =
     (case ts of
        TOr # r \<Rightarrow>
          (case parse_nt n AndTest r of
             Inl e \<Rightarrow> Inl e
           | Inr (x, r') \<Rightarrow> parse_nt n (OrRest (BoolOr l x)) r')
      | _ \<Rightarrow> Inr (l, ts))"
| "parse_nt (Suc n) AndTest ts =
     (case parse_nt n NotTest ts of
        Inl e \<Rightarrow> Inl e
      | Inr (l, r) \<Rightarrow> parse_nt n (AndRest l) r)"
| "parse_nt (Suc n) (AndRest l) ts =
     (case ts of
        TAnd # r \<Rightarrow>
          (case parse_nt n NotTest r of
             Inl e \<Rightarrow> Inl e
           | Inr (x, r') \<Rightarrow> parse_nt n (AndRest (BoolAnd l x)) r')
      | _ \<Rightarrow> Inr (l, ts))"
| "parse_nt (Suc n) NotTest ts =
     (case ts of
        TNot # r \<Rightarrow>
          (case parse_nt n NotTest r of
             Inl e \<Rightarrow> Inl e
           | Inr (x, r') \<Rightarrow> Inr (Invert x, r'))
      | _ \<Rightarrow> parse_nt n Comparison ts)"
| "parse_nt (Suc n) Comparison ts =
     (case parse_nt n Factor ts of
        Inl e \<Rightarrow> Inl e
      | Inr (l, r) \<Rightarrow>
          (case r of
             TCmp op # r1 \<Rightarrow>
               (case parse_nt n Factor r1 of
                  Inl e \<Rightarrow> Inl e
                | Inr (x, r2) \<Rightarrow>
                    (case r2 of
                       TCmp _ # _ \<Rightarrow> Inl Unsupported
                     | _ \<Rightarrow> Inr (Compare op l x, r2)))
           | _ \<Rightarrow> Inr (l, r)))"
| "parse_nt (Suc n) Factor ts =
     (case ts of
        TInvert # r \<Rightarrow>
          (case parse_nt n Factor r of
             Inl e \<Rightarrow> Inl e
           | Inr (x, r') \<Rightarrow> Inr (Invert x, r'))
      | _ \<Rightarrow> parse_nt n Atom ts)"
| "parse_nt (Suc n) Atom ts =
     (case ts of
        TLParen # r \<Rightarrow>
          (case r of
             TRParen # _ \<Rightarrow> Inl Unsupported
           | _ \<Rightarrow>
              (case parse_nt n OrTest r of
                 Inl e \<Rightarrow> Inl e
               | Inr (x, r') \<Rightarrow>
                   (case r' of TRParen # r'' \<Rightarrow> trailer x r'' | _ \<Rightarrow> Inl SyntaxError)))
      | TName s # r \<Rightarrow>
          (case method_call r of
             None \<Rightarrow> trailer (Col s) r
           | Some (m, r') \<Rightarrow>
               (case aggregate_of_name m of
                  None \<Rightarrow> Inl Unsupported
                | Some f \<Rightarrow> trailer (Agg f s) r'))
      | TLocal s # r \<Rightarrow> trailer (Local s) r
      | TNum k # r \<Rightarrow> trailer (Num k) r
      | TStr s # r \<Rightarrow> (case r of TStr _ # _ \<Rightarrow> Inl Unsupported | _ \<Rightarrow> trailer (Str s) r)
      | TConst b # r \<Rightarrow> trailer (Const b) r
      | _ \<Rightarrow> Inl SyntaxError)"

definition parse :: "string \<Rightarrow> error + expr" where
  "parse s =
     (case tokenize s of
        Inl e \<Rightarrow> Inl e
      | Inr ts \<Rightarrow>
          (case parse_nt (8 * length ts + 8) OrTest ts of
             Inl e \<Rightarrow> Inl e
           | Inr (x, r) \<Rightarrow> if r = [] then Inr x else Inl SyntaxError))"

subsection \<open>Tables and the evaluation of a parsed condition\<close>

text \<open>
  A table has named columns and rows of cells; a row lists its cells in the order of
  the columns. Cells are integers, floats (as reals), strings or booleans. Comparisons
  and the boolean operators work element by element, as in pandas; an aggregate of a
  column is one number for the whole table. Integers and floats compare by value;
  comparisons between cells of different kinds otherwise, orderings of strings and of
  booleans, and \<^verbatim>\<open>~\<close>, \<^verbatim>\<open>&\<close>,
  \<^verbatim>\<open>|\<close> on cells that are not booleans are outside the fragment.
  Names are resolved before any row is looked at, so an unknown column is reported on
  an empty table as well; of the local variables only \<^verbatim>\<open>@touched\<close> is modelled.
\<close>

datatype val = VInt int | VFloat real | VStr string | VBool bool

record DataFrame =
  columns :: "string list"
  rows :: "val list list"

fun resolve :: "string list \<Rightarrow> expr \<Rightarrow> error option" where
  "resolve cols (Col c) = (if c \<in> set cols then None else Some (UndefinedVariableError c))"
| "resolve cols (Local n) = (if n = ''touched'' then None else Some Unsupported)"
| "resolve cols (Num k) = None"
| "resolve cols (Str s) = None"
| "resolve cols (Const b) = None"
| "resolve cols (Compare op a b) =
     (case resolve cols a of Some e \<Rightarrow> Some e | None \<Rightarrow> resolve cols b)"
| "resolve cols (Invert a) = resolve cols a"
| "resolve cols (BoolAnd a b) =
     (case resolve cols a of Some e \<Rightarrow> Some e | None \<Rightarrow> resolve cols b)"
| "resolve cols (BoolOr a b) =
     (case resolve cols a of Some e \<Rightarrow> Some e | None \<Rightarrow> resolve cols b)"
| "resolve cols (Agg f c) = (if c \<in> set cols then None else Some (UndefinedVariableError c))"

fun compare_int :: "cmpop \<Rightarrow> int \<Rightarrow> int \<Rightarrow> bool" where
  "compare_int Eq x y = (x = y)"
| "compare_int NotEq x y = (x \<noteq> y)"
| "compare_int Lt x y = (x < y)"
| "compare_int LtE x y = (x \<le> y)"
| "compare_int Gt x y = (x > y)"
| "compare_int GtE x y = (x \<ge> y)"

fun compare_real :: "cmpop \<Rightarrow> real \<Rightarrow> real \<Rightarrow> bool" where
  "compare_real Eq x y = (x = y)"
| "compare_real NotEq x y = (x \<noteq> y)"
| "compare_real Lt x y = (x < y)"
| "compare_real LtE x y = (x \<le> y)"
| "compare_real Gt x y = (x > y)"
| "compare_real GtE x y = (x \<ge> y)"

fun compare_vals :: "cmpop \<Rightarrow> val \<Rightarrow> val \<Rightarrow> error + val" where
  "compare_vals op (VInt x) (VInt y) = Inr (VBool (compare_int op x y))"
| "compare_vals op (VInt x) (VFloat y) = Inr (VBool (compare_real op (of_int x) y))"
| "compare_vals op (VFloat x) (VInt y) = Inr (VBool (compare_real op x (of_int y)))"
| "compare_vals op (VFloat x) (VFloat y) = Inr (VBool (compare_real op x y))"
| "compare_vals Eq (VStr s) (VStr t) = Inr (VBool (s = t))"
| "compare_vals NotEq (VStr s) (VStr t) = Inr (VBool (s \<noteq> t))"
| "compare_vals Eq (VBool a) (VBool b) = Inr (VBool (a = b))"
| "compare_vals NotEq (VBool a) (VBool b) = Inr (VBool (a \<noteq> b))"
| "compare_vals _ _ _ = Inl Unsupported"

text \<open>
  A method call \<^verbatim>\<open>name.mean()\<close>, \<^verbatim>\<open>name.max()\<close>, \<^verbatim>\<open>name.min()\<close> or
  \<^verbatim>\<open>name.sum()\<close> aggregates the whole column of the table to one number, which is
  then used in every row. Columns of integers are modelled; the aggregate of another
  column, and the \<^verbatim>\<open>NaN\<close> that the mean, maximum and minimum of an empty column
  give, are outside the fragment.
\<close>

definition column_ints :: "string list \<Rightarrow> val list list \<Rightarrow> string \<Rightarrow> int list option" where
  "column_ints cols tbl c =
     those (map (\<lambda>row. case map_of (zip cols row) c of
                          Some (VInt n) \<Rightarrow> Some n
                        | _ \<Rightarrow> None) tbl)"

fun aggregate :: "aggfun \<Rightarrow> int list \<Rightarrow> error + val" where
  "aggregate AggSum xs = Inr (VInt (sum_list xs))"
| "aggregate f [] = Inl Unsupported"
| "aggregate AggMean (x # xs) =
     Inr (VFloat (real_of_int (sum_list (x # xs)) / real (length (x # xs))))"
| "aggregate AggMax (x # xs) = Inr (VInt (fold max xs x))"
| "aggregate AggMin (x # xs) = Inr (VInt (fold min xs x))"

text \<open>
  The value of an expression at one row: \<open>tbl\<close> are all rows of the table, \<open>row\<close>
  is the row and \<open>t\<close> its entry of \<^verbatim>\<open>touched\<close>.
\<close>

fun eval_expr ::
  "string list \<Rightarrow> val list list \<Rightarrow> val list \<Rightarrow> bool \<Rightarrow> expr \<Rightarrow> error + val" where
  "eval_expr cols tbl row t (Col c) =
     (case map_of (zip cols row) c of
        None \<Rightarrow> Inl (UndefinedVariableError c)
      | Some v \<Rightarrow> Inr v)"
| "eval_expr cols tbl row t (Local n) = (if n = ''touched'' then Inr (VBool t) else Inl Unsupported)"
| "eval_expr cols tbl row t (Num k) = Inr (VInt (int k))"
| "eval_expr cols tbl row t (Str s) = Inr (VStr s)"
| "eval_expr cols tbl row t (Const b) = Inr (VBool b)"
| "eval_expr cols tbl row t (Compare op a b) =
     (case eval_expr cols tbl row t a of
        Inl e \<Rightarrow> Inl e
      | Inr x \<Rightarrow>
          (case eval_expr cols tbl row t b of
             Inl e \<Rightarrow> Inl e
           | Inr y \<Rightarrow> compare_vals op x y))"
| "eval_expr cols tbl row t (Invert a) =
     (case eval_expr cols tbl row t a of
        Inl e \<Rightarrow> Inl e
      | Inr (VBool x) \<Rightarrow> Inr (VBool (\<not> x))
      | Inr _ \<Rightarrow> Inl Unsupported)"
| "eval_expr cols tbl row t (BoolAnd a b) =
     (case eval_expr cols tbl row t a of
        Inl e \<Rightarrow> Inl e
      | Inr x \<Rightarrow>
          (case eval_expr cols tbl row t b of
             Inl e \<Rightarrow> Inl e
           | Inr y \<Rightarrow>
               (case (x, y) of
                  (VBool p, VBool q) \<Rightarrow> Inr (VBool (p \<and> q))
                | _ \<Rightarrow> Inl Unsupported)))"
| "eval_expr cols tbl row t (BoolOr a b) =
     (case eval_expr cols tbl row t a of
        Inl e \<Rightarrow> Inl e
      | Inr x \<Rightarrow>
          (case eval_expr cols tbl row t b of
             Inl e \<Rightarrow> Inl e
           | Inr y \<Rightarrow>
               (case (x, y) of
                  (VBool p, VBool q) \<Rightarrow> Inr (VBool (p \<or> q))
                | _ \<Rightarrow> Inl Unsupported)))"
| "eval_expr cols tbl row t (Agg f c) =
     (case column_ints cols tbl c of
        None \<Rightarrow> Inl Unsupported
      | Some xs \<Rightarrow> aggregate f xs)"

definition eval_row ::
  "string list \<Rightarrow> val list list \<Rightarrow> expr \<Rightarrow> val list \<times> bool \<Rightarrow> error + bool" where
  "eval_row cols tbl e rt =
     (case eval_expr cols tbl (fst rt) (snd rt) e of
        Inl err \<Rightarrow> Inl err
      | Inr (VBool b) \<Rightarrow> Inr b
      | Inr _ \<Rightarrow> Inl Unsupported)"

fun map_rows :: "('a \<Rightarrow> error + 'b) \<Rightarrow> 'a list \<Rightarrow> error + 'b list" where
  "map_rows f [] = Inr []"
| "map_rows f (x # xs) =
     (case f x of
        Inl e \<Rightarrow> Inl e
      | Inr y \<Rightarrow> (case map_rows f xs of Inl e \<Rightarrow> Inl e | Inr ys \<Rightarrow> Inr (y # ys)))"

definition df_eval :: "DataFrame \<Rightarrow> bool list \<Rightarrow> string \<Rightarrow> error + bool list" where
  "df_eval df touched text =
     (case parse text of
        Inl e \<Rightarrow> Inl e
      | Inr ex \<Rightarrow>
          (case resolve (columns df) ex of
             Some e \<Rightarrow> Inl e
           | None \<Rightarrow>
               map_rows (eval_row (columns df) (rows df) ex) (zip (rows df) touched)))"

subsection \<open>Predictor: evaluation\<close>

text \<open>
  \<^verbatim>\<open>if condition:\<close> tests the truth value of the stored condition; a true
  condition that is not a string cannot be concatenated with the suffix.
\<close>

fun truthy :: "pyval \<Rightarrow> bool" where
  "truthy (PyStr s) = (s \<noteq> [])"
| "truthy (PyBool b) = b"
| "truthy (PyInt n) = (n \<noteq> 0)"
| "truthy PyNone = False"
| "truthy (PyOther b) = b"

definition condition_text :: "pyval \<Rightarrow> error + string" where
  "condition_text condition =
     (if truthy condition
      then (case condition of
              PyStr s \<Rightarrow> Inr (s @ '' & (~@touched)'')
            | _ \<Rightarrow> Inl TypeError)
      else Inr ''~@touched'')"

text \<open>\<^verbatim>\<open>output[mask] = value\<close>\<close>

definition assign_mask :: "real option list \<Rightarrow> bool list \<Rightarrow> real \<Rightarrow> real option list" where
  "assign_mask output msk v = map2 (\<lambda>out m. if m then Some v else out) output msk"

text \<open>
  The loop of \<^verbatim>\<open>predict\<close> over the stored rules, with its two local columns
  \<^verbatim>\<open>output\<close> and \<^verbatim>\<open>touched\<close>; they start as all missing and all false.
\<close>

fun predict_loop ::
  "DataFrame \<Rightarrow> (pyval \<times> real) list \<Rightarrow> real option list \<Rightarrow> bool list
     \<Rightarrow> error + real option list" where
  "predict_loop df [] output touched = Inr output"
| "predict_loop df ((condition, v) # rest) output touched =
     (case condition_text condition of
        Inl e \<Rightarrow> Inl e
      | Inr text \<Rightarrow>
          (case df_eval df touched text of
             Inl e \<Rightarrow> Inl e
           | Inr msk \<Rightarrow>
               predict_loop df rest (assign_mask output msk v)
                 (map2 (\<or>) touched msk)))"

definition Predictor_predict :: "Predictor \<Rightarrow> DataFrame \<Rightarrow> error + real option list" where
  "Predictor_predict p df =
     predict_loop df (conditions p)
       (replicate (length (rows df)) None) (replicate (length (rows df)) False)"

subsection \<open>LinearModel\<close>

text \<open>
  The constructor asserts that the type is a member of the enumeration and that every
  further argument is a \<^verbatim>\<open>Predictor\<close>; both hold by the types of the model. It
  stores the intercept as it is given, and \<^verbatim>\<open>None\<close> can be given.
\<close>

datatype LinearModelType = ADDITIVE | LOGISTIC | MULTIPLICATIVE

record LinearModel =
  lm_type :: LinearModelType
  intercept :: "real option"
  predictors :: "Predictor list"

definition LinearModel_init ::
  "LinearModelType \<Rightarrow> real option \<Rightarrow> Predictor list \<Rightarrow> error + LinearModel" where
  "LinearModel_init t c args = Inr \<lparr>lm_type = t, intercept = c, predictors = args\<rparr>"

text \<open>
  \<^verbatim>\<open>res_by_predictor\<close> is a frame whose columns are labelled by
  \<^verbatim>\<open>'__intercept__'\<close> and by the predictor objects. Assigning to a label that is
  already there replaces that column in place; a new label is appended.
\<close>

datatype label = Intercept_label | Predictor_label nat

type_synonym frame = "(label \<times> real option list) list"

fun set_column :: "label \<Rightarrow> real option list \<Rightarrow> frame \<Rightarrow> frame" where
  "set_column k c [] = [(k, c)]"
| "set_column k c ((k', c') # f) =
     (if k = k' then (k, c) # f else (k', c') # set_column k c f)"

fun predict_columns :: "DataFrame \<Rightarrow> Predictor list \<Rightarrow> frame \<Rightarrow> error + frame" where
  "predict_columns df [] res = Inr res"
| "predict_columns df (p # ps) res =
     (case Predictor_predict p df of
        Inl e \<Rightarrow> Inl e
      | Inr col \<Rightarrow> predict_columns df ps (set_column (Predictor_label (ident p)) col res))"

text \<open>\<^verbatim>\<open>sum(axis=1, skipna=True)\<close> and \<^verbatim>\<open>prod(axis=1, skipna=True)\<close> at row \<open>i\<close>.\<close>

definition sum_skipna :: "frame \<Rightarrow> nat \<Rightarrow> real" where
  "sum_skipna res i =
     sum_list (map (\<lambda>(k, col). case col ! i of None \<Rightarrow> 0 | Some v \<Rightarrow> v) res)"

definition prod_skipna :: "frame \<Rightarrow> nat \<Rightarrow> real" where
  "prod_skipna res i =
     prod_list (map (\<lambda>(k, col). case col ! i of None \<Rightarrow> 1 | Some v \<Rightarrow> v) res)"

text \<open>
  The logistic transform divides two columns. Division of floats by zero does not
  raise in pandas: it gives an infinity or \<^verbatim>\<open>NaN\<close>.
\<close>

datatype pyfloat = Finite real | PosInf | NegInf | NaN

definition fdiv :: "real \<Rightarrow> real \<Rightarrow> pyfloat" where
  "fdiv a b =
     (if b \<noteq> 0 then Finite (a / b)
      else if a > 0 then PosInf
      else if a < 0 then NegInf
      else NaN)"

text \<open>
  \<^verbatim>\<open>LinearModel.predict\<close>: the two assertions, the frame with the intercept column
  and one column per predictor, and the combination by the type of the model. The
  final \<^verbatim>\<open>return None\<close> of the source is not reachable for the three types.
\<close>

definition LinearModel_predict :: "LinearModel \<Rightarrow> DataFrame \<Rightarrow> error + pyfloat list" where
  "LinearModel_predict m df =
     (case intercept m of
        None \<Rightarrow> Inl (AssertionError ''Interceipt is not specified'')
      | Some c \<Rightarrow>
          if \<not> list_all (\<lambda>name. name \<in> set (columns df))
                   (List.map_filter property_name (predictors m))
          then Inl (AssertionError ''Predictor variables not in df'')
          else
            (case predict_columns df (predictors m)
                    [(Intercept_label, replicate (length (rows df)) (Some c))] of
               Inl e \<Rightarrow> Inl e
             | Inr res \<Rightarrow>
                 (case lm_type m of
                    ADDITIVE \<Rightarrow>
                      Inr (map (\<lambda>i. Finite (sum_skipna res i)) [0..<length (rows df)])
                  | LOGISTIC \<Rightarrow>
                      Inr (map (\<lambda>i. fdiv (prod_skipna res i) (1 + prod_skipna res i))
                             [0..<length (rows df)])
                  | MULTIPLICATIVE \<Rightarrow>
                      Inr (map (\<lambda>i. Finite (prod_skipna res i)) [0..<length (rows df)]))))"

subsection \<open>Auxiliary notions for the proofs\<close>

text \<open>Every column of the frame but the listed ones is missing at row \<open>i\<close>.\<close>

definition none_at :: "nat \<Rightarrow> frame \<Rightarrow> bool" where
  "none_at i res = list_all (\<lambda>kc. snd kc ! i = None) res"








text \<open>
  The number of stored rules that \<^verbatim>\<open>predict\<close> treats as unconditioned: the ones
  whose condition is false as a truth value (the empty text, \<^verbatim>\<open>None\<close>).
\<close>

definition unconditioned_count :: "Predictor \<Rightarrow> nat" where
  "unconditioned_count p = length (filter (\<lambda>rule. \<not> truthy (fst rule)) (conditions p))"

text \<open>
  For the proof that the recursion bound of \<open>parse\<close> is never reached: the rules that
  may return without reading a token, and the number of steps a rule needs before it
  reads one.
\<close>

fun is_rest :: "rule_name \<Rightarrow> bool" where
  "is_rest (OrRest _) = True"
| "is_rest (AndRest _) = True"
| "is_rest _ = False"

fun rank :: "rule_name \<Rightarrow> nat" where
  "rank Atom = 1"
| "rank Factor = 2"
| "rank Comparison = 3"
| "rank NotTest = 4"
| "rank (AndRest _) = 5"
| "rank AndTest = 6"
| "rank (OrRest _) = 7"
| "rank OrTest = 8"

text \<open>
  A stored condition is guarded when its text, with the suffix that \<^verbatim>\<open>predict\<close>
  appends, parses as a conjunction with \<^verbatim>\<open>~@touched\<close> (or is \<^verbatim>\<open>~@touched\<close>
  alone).
\<close>

definition guarded :: "pyval \<Rightarrow> bool" where
  "guarded condition =
     (case condition_text condition of
        Inl _ \<Rightarrow> False
      | Inr s \<Rightarrow>
          (case parse s of
             Inr (BoolAnd e (Invert (Local n))) \<Rightarrow> n = ''touched''
           | Inr (Invert (Local n)) \<Rightarrow> n = ''touched''
           | _ \<Rightarrow> False))"

section \<open>Properties\<close>

subsection \<open>Construction of predictors\<close>

lemma when_Inr:
  "Predictor_when p c v = Inr p' \<Longrightarrow>
   property_name p' = property_name p \<and>
   (property_name p \<noteq> None \<longrightarrow>
      else_condition_supplied p' = (else_condition_supplied p \<or> c = PyNone))"
  by (auto simp: Predictor_when_def Predictor_coeff_def append_condition_def
           split: option.splits pyval.splits list.splits if_splits)

lemma otherwise_Inr:
  "Predictor_otherwise p v = Inr p' \<Longrightarrow>
   property_name p' = property_name p \<and> property_name p \<noteq> None \<and>
   \<not> else_condition_supplied p \<and> else_condition_supplied p'"
  by (auto simp: Predictor_otherwise_def Predictor_coeff_def append_condition_def
           split: option.splits if_splits)

lemma build_property_name:
  "build p calls = Inr p' \<Longrightarrow> property_name p' = property_name p"
proof (induction calls arbitrary: p)
  case Nil
  then show ?case by simp
next
  case (Cons c calls)
  then show ?case
    by (cases c) (auto split: sum.splits dest!: when_Inr otherwise_Inr)
qed

text \<open>Once the flag is set on a named predictor, no later \<^verbatim>\<open>otherwise\<close> succeeds.\<close>

lemma build_after_otherwise:
  "build p calls = Inr p' \<Longrightarrow> property_name p \<noteq> None \<Longrightarrow> else_condition_supplied p \<Longrightarrow>
   else_condition_supplied p' \<and> \<not> list_ex is_Otherwise calls"
proof (induction calls arbitrary: p)
  case Nil
  then show ?case by simp
next
  case (Cons c calls)
  show ?case
  proof (cases c)
    case (When cond v)
    with Cons.prems obtain q where q: "Predictor_when p cond v = Inr q" "build q calls = Inr p'"
      by (auto split: sum.splits)
    from when_Inr [OF q(1)] Cons.prems(2,3)
    have "property_name q \<noteq> None" "else_condition_supplied q" by auto
    with Cons.IH [OF q(2)] When show ?thesis by simp
  next
    case (Otherwise v)
    with Cons.prems obtain q where q: "Predictor_otherwise p v = Inr q"
      by (auto split: sum.splits)
    from otherwise_Inr [OF q] Cons.prems(3) show ?thesis by simp
  qed
qed

lemma build_otherwise_sets_flag:
  "build p calls = Inr p' \<Longrightarrow> list_ex is_Otherwise calls \<Longrightarrow>
   else_condition_supplied p' \<and> length (filter is_Otherwise calls) = 1"
proof (induction calls arbitrary: p)
  case Nil
  then show ?case by simp
next
  case (Cons c calls)
  show ?case
  proof (cases c)
    case (When cond v)
    with Cons.prems obtain q where q: "Predictor_when p cond v = Inr q" "build q calls = Inr p'"
      by (auto split: sum.splits)
    from When Cons.prems(2) have "list_ex is_Otherwise calls" by simp
    from Cons.IH [OF q(2) this] When show ?thesis by simp
  next
    case (Otherwise v)
    with Cons.prems obtain q where q: "Predictor_otherwise p v = Inr q" "build q calls = Inr p'"
      by (auto split: sum.splits)
    from otherwise_Inr [OF q(1)] have fq: "property_name q \<noteq> None" "else_condition_supplied q"
      by auto
    from build_after_otherwise [OF q(2) fq]
    have "else_condition_supplied p'" and none: "\<not> list_ex is_Otherwise calls" by auto
    from none have "filter is_Otherwise calls = []"
      by (auto simp: filter_empty_conv list_ex_iff)
    with \<open>else_condition_supplied p'\<close> Otherwise show ?thesis by simp
  qed
qed

text \<open>
  On a named predictor the flag \<open>else_condition_supplied\<close> counts the unconditioned
  rules.
\<close>

lemma when_unconditioned_count:
  "Predictor_when p c v = Inr p' \<Longrightarrow> property_name p \<noteq> None \<Longrightarrow>
   unconditioned_count p = (if else_condition_supplied p then 1 else 0) \<Longrightarrow>
   unconditioned_count p' = (if else_condition_supplied p' then 1 else 0)"
  by (auto simp: Predictor_when_def Predictor_coeff_def append_condition_def
                 unconditioned_count_def
           split: option.splits pyval.splits list.splits if_splits)

lemma otherwise_unconditioned_count:
  "Predictor_otherwise p v = Inr p' \<Longrightarrow>
   unconditioned_count p = (if else_condition_supplied p then 1 else 0) \<Longrightarrow>
   unconditioned_count p' = (if else_condition_supplied p' then 1 else 0)"
  by (auto simp: Predictor_otherwise_def Predictor_coeff_def append_condition_def
                 unconditioned_count_def
           split: option.splits if_splits)

lemma build_unconditioned_count:
  "build p calls = Inr p' \<Longrightarrow> property_name p \<noteq> None \<Longrightarrow>
   unconditioned_count p = (if else_condition_supplied p then 1 else 0) \<Longrightarrow>
   unconditioned_count p' = (if else_condition_supplied p' then 1 else 0)"
proof (induction calls arbitrary: p)
  case Nil
  then show ?case by simp
next
  case (Cons c calls)
  show ?case
  proof (cases c)
    case (When cond v)
    with Cons.prems obtain q where q: "Predictor_when p cond v = Inr q" "build q calls = Inr p'"
      by (auto split: sum.splits)
    from when_Inr [OF q(1)] Cons.prems(2) have "property_name q \<noteq> None" by simp
    moreover from when_unconditioned_count [OF q(1) Cons.prems(2,3)]
    have "unconditioned_count q = (if else_condition_supplied q then 1 else 0)" .
    ultimately show ?thesis by (rule Cons.IH [OF q(2)])
  next
    case (Otherwise v)
    with Cons.prems obtain q where q: "Predictor_otherwise p v = Inr q" "build q calls = Inr p'"
      by (auto split: sum.splits)
    from otherwise_Inr [OF q(1)] have "property_name q \<noteq> None" by simp
    moreover from otherwise_unconditioned_count [OF q(1) Cons.prems(3)]
    have "unconditioned_count q = (if else_condition_supplied q then 1 else 0)" .
    ultimately show ?thesis by (rule Cons.IH [OF q(2)])
  qed
qed

text \<open>
  Claim C9, as the source has it. Take any chain of \<^verbatim>\<open>when\<close> and \<^verbatim>\<open>otherwise\<close> calls that ran without an
  exception on a fresh predictor, and let \<open>p\<close> be the predictor it built.
  If the predictor has no attribute name, a further \<^verbatim>\<open>otherwise\<close> fails with the
  assertion \<^verbatim>\<open>Can't use `otherwise` condition on unnamed Predictor\<close>. If it has a name
  and the chain already holds an \<^verbatim>\<open>otherwise\<close>, a further \<^verbatim>\<open>otherwise\<close> fails with
  the assertion \<^verbatim>\<open>You can only give one unconditioned value to predictor\<close>. Hence no
  successful chain holds more than one \<^verbatim>\<open>otherwise\<close>, and a named predictor
  never stores more than one unconditioned rule. The source signals both configuration
  errors with \<^verbatim>\<open>assert\<close>, that is as \<^verbatim>\<open>AssertionError\<close>. Nothing is said here
  about \<^verbatim>\<open>when\<close> on a predictor without attribute name, which stores its
  condition unchecked.
\<close>

theorem otherwise_at_most_once:
  assumes "build (Predictor_init oid name) calls = Inr p"
  shows "(name = None \<longrightarrow>
            Predictor_otherwise p v =
              Inl (AssertionError ''Can't use `otherwise` condition on unnamed Predictor''))
       \<and> (name \<noteq> None \<and> list_ex is_Otherwise calls \<longrightarrow>
            Predictor_otherwise p v =
              Inl (AssertionError ''You can only give one unconditioned value to predictor''))
       \<and> length (filter is_Otherwise calls) \<le> 1
       \<and> (name \<noteq> None \<longrightarrow> unconditioned_count p \<le> 1)"
proof -
  have name: "property_name p = name"
    using build_property_name [OF assms] by (simp add: Predictor_init_def)
  have a: "name = None \<longrightarrow>
            Predictor_otherwise p v =
              Inl (AssertionError ''Can't use `otherwise` condition on unnamed Predictor'')"
    using name by (simp add: Predictor_otherwise_def)
  have b: "name \<noteq> None \<and> list_ex is_Otherwise calls \<longrightarrow>
            Predictor_otherwise p v =
              Inl (AssertionError ''You can only give one unconditioned value to predictor'')"
  proof
    assume h: "name \<noteq> None \<and> list_ex is_Otherwise calls"
    with build_otherwise_sets_flag [OF assms] have "else_condition_supplied p" by simp
    with h name show "Predictor_otherwise p v =
              Inl (AssertionError ''You can only give one unconditioned value to predictor'')"
      by (auto simp: Predictor_otherwise_def Predictor_coeff_def)
  qed
  have c: "length (filter is_Otherwise calls) \<le> 1"
  proof (cases "list_ex is_Otherwise calls")
    case True
    from build_otherwise_sets_flag [OF assms this] show ?thesis by simp
  next
    case False
    then have "filter is_Otherwise calls = []"
      by (auto simp: filter_empty_conv list_ex_iff)
    then show ?thesis by simp
  qed
  have d: "name \<noteq> None \<longrightarrow> unconditioned_count p \<le> 1"
  proof
    assume "name \<noteq> None"
    have "unconditioned_count p = (if else_condition_supplied p then 1 else 0)"
      using \<open>name \<noteq> None\<close>
      by (intro build_unconditioned_count [OF assms])
         (simp_all add: Predictor_init_def unconditioned_count_def)
    then show "unconditioned_count p \<le> 1" by simp
  qed
  from a b c d show ?thesis by blast
qed

text \<open>
  The theorem at \<^verbatim>\<open>Predictor('sex').when('M', 1.5).otherwise(1)\<close> and at
  \<^verbatim>\<open>Predictor().when('a', 1)\<close>: a further \<^verbatim>\<open>otherwise(2)\<close> fails on both.
\<close>

theorem otherwise_at_most_once_witness:
  "build (Predictor_init 0 (Some ''sex'')) [When (PyStr ''M'') 1.5, Otherwise 1]
     = Inr \<lparr>ident = 0, property_name = Some ''sex'',
             conditions = [(PyStr (''(sex == '' @ [dquote] @ ''M'' @ [dquote] @ '')''), 1.5),
                           (PyStr [], 1)],
             else_condition_supplied = True\<rparr>
   \<and> Predictor_otherwise
        \<lparr>ident = 0, property_name = Some ''sex'',
             conditions = [(PyStr (''(sex == '' @ [dquote] @ ''M'' @ [dquote] @ '')''), 1.5),
                           (PyStr [], 1)],
             else_condition_supplied = True\<rparr> 2
     = Inl (AssertionError ''You can only give one unconditioned value to predictor'')
   \<and> build (Predictor_init 1 None) [When (PyStr ''a'') 1]
     = Inr \<lparr>ident = 1, property_name = None, conditions = [(PyStr ''a'', 1)],
             else_condition_supplied = False\<rparr>
   \<and> Predictor_otherwise
        \<lparr>ident = 1, property_name = None, conditions = [(PyStr ''a'', 1)],
             else_condition_supplied = False\<rparr> 2
     = Inl (AssertionError ''Can't use `otherwise` condition on unnamed Predictor'')"
proof -
  have b1: "build (Predictor_init 0 (Some ''sex'')) [When (PyStr ''M'') 1.5, Otherwise 1]
     = Inr \<lparr>ident = 0, property_name = Some ''sex'',
             conditions = [(PyStr (''(sex == '' @ [dquote] @ ''M'' @ [dquote] @ '')''), 1.5),
                           (PyStr [], 1)],
             else_condition_supplied = True\<rparr>"
    by (simp add: Predictor_init_def Predictor_when_def Predictor_otherwise_def
                  Predictor_coeff_def append_condition_def isnumeric_def)
  have b2: "build (Predictor_init 1 None) [When (PyStr ''a'') 1]
     = Inr \<lparr>ident = 1, property_name = None, conditions = [(PyStr ''a'', 1)],
             else_condition_supplied = False\<rparr>"
    by (simp add: Predictor_init_def Predictor_when_def Predictor_coeff_def
                  append_condition_def)
  from otherwise_at_most_once [OF b1, of 2] otherwise_at_most_once [OF b2, of 2] b1 b2
  show ?thesis by simp
qed

text \<open>
  Claim C9, as stated for every Predictor, fails. A predictor without attribute name
  stores the condition of \<^verbatim>\<open>when\<close> as it is given and checks nothing:
  \<^verbatim>\<open>Predictor().when(None, 1).when(None, 2)\<close> runs without an exception and stores
  two rules whose condition \<^verbatim>\<open>predict\<close> replaces by \<^verbatim>\<open>~@touched\<close>, that is two
  unconditioned rules.
\<close>

theorem unnamed_unconditioned_rules_counterexample:
  "build (Predictor_init 0 None) [When PyNone 1, When PyNone 2]
     = Inr \<lparr>ident = 0, property_name = None, conditions = [(PyNone, 1), (PyNone, 2)],
             else_condition_supplied = False\<rparr>
   \<and> condition_text PyNone = Inr ''~@touched''
   \<and> unconditioned_count
        \<lparr>ident = 0, property_name = None, conditions = [(PyNone, 1), (PyNone, 2)],
          else_condition_supplied = False\<rparr> = 2"
  by (simp add: Predictor_init_def Predictor_when_def Predictor_coeff_def append_condition_def
        condition_text_def unconditioned_count_def)

text \<open>
  Claim C10. On a predictor that has an attribute name, \<^verbatim>\<open>when('', v)\<close> reaches
  \<^verbatim>\<open>condition[0]\<close> with an empty string: the call ends in Python's
  \<^verbatim>\<open>IndexError\<close>; it neither raises one of the assertion errors nor adds a rule.
\<close>

theorem when_empty_string_IndexError:
  "Predictor_when (p\<lparr>property_name := Some name\<rparr>) (PyStr []) v = Inl IndexError"
  by (simp add: Predictor_when_def Predictor_coeff_def)

subsection \<open>Condition texts that the claims use\<close>

lemma parse_sex_plain:
  "parse (''(sex == '' @ [dquote] @ ''M'' @ [dquote] @ '') & (~@touched)'')
     = Inr (BoolAnd (Compare Eq (Col ''sex'') (Str ''M'')) (Invert (Local ''touched'')))"
  by code_simp

lemma parse_sex_raw:
  "parse (''(sex=='' @ [dquote] @ ''M'' @ [dquote] @ '') & (~@touched)'')
     = Inr (BoolAnd (Compare Eq (Col ''sex'') (Str ''M'')) (Invert (Local ''touched'')))"
  by code_simp


lemma parse_age_unbalanced: "parse ''(age == 5 & (~@touched)'' = Inl SyntaxError"
  by code_simp

lemma parse_a: "parse ''a & (~@touched)'' = Inr (BoolAnd (Col ''a'') (Invert (Local ''touched'')))"
  by code_simp

lemma parse_a_or_b:
  "parse ''a | b & (~@touched)''
     = Inr (BoolOr (Col ''a'') (BoolAnd (Col ''b'') (Invert (Local ''touched''))))"
  by code_simp

lemma parse_a_alone: "parse ''a'' = Inr (Col ''a'')"
  by code_simp

lemma parse_a_or_b_alone: "parse ''a | b'' = Inr (BoolOr (Col ''a'') (Col ''b''))"
  by code_simp


lemma str_int_5: "str_int 5 = ''5''"
  by code_simp

lemma not_isnumeric_M: "\<not> isnumeric ''M''"
  by (simp add: isnumeric_def)

subsection \<open>The parser never reaches its recursion bound\<close>

lemma method_call_shorter: "method_call r = Some (m, r') \<Longrightarrow> length r' < length r"
  by (induction r rule: method_call.induct) simp_all

lemma trailer_Inr: "trailer x ts = Inr (y, r) \<Longrightarrow> r = ts"
  by (auto simp: trailer_def split: list.splits token.splits)

lemma trailer_fuel: "trailer x ts \<noteq> Inl OutOfFuel"
  by (auto simp: trailer_def split: list.splits token.splits)

lemma parse_nt_consumes:
  "parse_nt n nt ts = Inr (x, r) \<Longrightarrow>
   length r \<le> length ts \<and> (\<not> is_rest nt \<longrightarrow> length r < length ts)"
proof (induction n arbitrary: nt ts x r)
  case 0
  then show ?case by simp
next
  case (Suc n)
  show ?case
  proof (cases nt)
    case OrTest
    with Suc.prems obtain l r1 where a: "parse_nt n AndTest ts = Inr (l, r1)"
      and b: "parse_nt n (OrRest l) r1 = Inr (x, r)"
      by (auto split: sum.splits)
    from Suc.IH [OF a] Suc.IH [OF b] OrTest show ?thesis by simp
  next
    case (OrRest l)
    show ?thesis
    proof (cases "\<exists>r0. ts = TOr # r0")
      case True
      then obtain r0 where ts: "ts = TOr # r0" by blast
      with Suc.prems OrRest obtain y r1 where a: "parse_nt n AndTest r0 = Inr (y, r1)"
        and b: "parse_nt n (OrRest (BoolOr l y)) r1 = Inr (x, r)"
        by (auto split: sum.splits)
      from Suc.IH [OF a] Suc.IH [OF b] OrRest ts show ?thesis by simp
    next
      case False
      with Suc.prems OrRest have "r = ts"
        by (auto split: list.splits token.splits)
      with OrRest show ?thesis by simp
    qed
  next
    case AndTest
    with Suc.prems obtain l r1 where a: "parse_nt n NotTest ts = Inr (l, r1)"
      and b: "parse_nt n (AndRest l) r1 = Inr (x, r)"
      by (auto split: sum.splits)
    from Suc.IH [OF a] Suc.IH [OF b] AndTest show ?thesis by simp
  next
    case (AndRest l)
    show ?thesis
    proof (cases "\<exists>r0. ts = TAnd # r0")
      case True
      then obtain r0 where ts: "ts = TAnd # r0" by blast
      with Suc.prems AndRest obtain y r1 where a: "parse_nt n NotTest r0 = Inr (y, r1)"
        and b: "parse_nt n (AndRest (BoolAnd l y)) r1 = Inr (x, r)"
        by (auto split: sum.splits)
      from Suc.IH [OF a] Suc.IH [OF b] AndRest ts show ?thesis by simp
    next
      case False
      with Suc.prems AndRest have "r = ts"
        by (auto split: list.splits token.splits)
      with AndRest show ?thesis by simp
    qed
  next
    case NotTest
    show ?thesis
    proof (cases "\<exists>r0. ts = TNot # r0")
      case True
      then obtain r0 where ts: "ts = TNot # r0" by blast
      with Suc.prems NotTest obtain y where a: "parse_nt n NotTest r0 = Inr (y, r)"
        by (auto split: sum.splits)
      from Suc.IH [OF a] NotTest ts show ?thesis by simp
    next
      case False
      with Suc.prems NotTest have "parse_nt n Comparison ts = Inr (x, r)"
        by (auto split: list.splits token.splits)
      from Suc.IH [OF this] NotTest show ?thesis by simp
    qed
  next
    case Comparison
    with Suc.prems obtain l r1 where a: "parse_nt n Factor ts = Inr (l, r1)"
      by (auto split: sum.splits)
    show ?thesis
    proof (cases "\<exists>op r2. r1 = TCmp op # r2")
      case True
      then obtain op r2 where r1: "r1 = TCmp op # r2" by blast
      with Suc.prems Comparison a obtain y where b: "parse_nt n Factor r2 = Inr (y, r)"
        by (auto split: sum.splits list.splits token.splits)
      from Suc.IH [OF a] Suc.IH [OF b] Comparison r1 show ?thesis by simp
    next
      case False
      with Suc.prems Comparison a have "r = r1"
        by (auto split: list.splits token.splits)
      with Suc.IH [OF a] Comparison show ?thesis by simp
    qed
  next
    case Factor
    show ?thesis
    proof (cases "\<exists>r0. ts = TInvert # r0")
      case True
      then obtain r0 where ts: "ts = TInvert # r0" by blast
      with Suc.prems Factor obtain y where a: "parse_nt n Factor r0 = Inr (y, r)"
        by (auto split: sum.splits)
      from Suc.IH [OF a] Factor ts show ?thesis by simp
    next
      case False
      with Suc.prems Factor have "parse_nt n Atom ts = Inr (x, r)"
        by (auto split: list.splits token.splits)
      from Suc.IH [OF this] Factor show ?thesis by simp
    qed
  next
    case Atom
    show ?thesis
    proof (cases ts)
      case Nil
      with Suc.prems Atom show ?thesis by simp
    next
      case (Cons t r0)
      show ?thesis
      proof (cases "t = TLParen")
        case True
        with Suc.prems Atom Cons obtain y r1 r2 where a: "parse_nt n OrTest r0 = Inr (y, r1)"
          and b: "r1 = TRParen # r2" and c: "trailer y r2 = Inr (x, r)"
          by (auto split: sum.splits list.splits token.splits)
        from Suc.IH [OF a] trailer_Inr [OF c] b Atom Cons show ?thesis by simp
      next
        case False
        with Suc.prems Atom Cons have "length r \<le> length r0"
          by (cases t)
             (auto split: list.splits token.splits option.splits
                   dest!: trailer_Inr method_call_shorter)
        with Atom Cons show ?thesis by simp
      qed
    qed
  qed
qed

lemma parse_nt_fuel:
  "8 * length ts + rank nt \<le> n \<Longrightarrow> parse_nt n nt ts \<noteq> Inl OutOfFuel"
proof (induction n arbitrary: nt ts)
  case 0
  then show ?case by (cases nt) simp_all
next
  case (Suc n)
  show ?case
  proof (cases nt)
    case OrTest
    with Suc.prems have f1: "8 * length ts + rank AndTest \<le> n" by simp
    show ?thesis
    proof (cases "parse_nt n AndTest ts")
      case (Inl e)
      with Suc.IH [OF f1] OrTest show ?thesis by simp
    next
      case (Inr lr)
      obtain l r1 where lr: "lr = (l, r1)" by (cases lr)
      from parse_nt_consumes [of n AndTest ts l r1] Inr lr have "length r1 < length ts" by simp
      with Suc.prems OrTest have "8 * length r1 + rank (OrRest l) \<le> n" by simp
      from Suc.IH [OF this] Inr lr OrTest show ?thesis by simp
    qed
  next
    case (OrRest l)
    show ?thesis
    proof (cases "\<exists>r0. ts = TOr # r0")
      case True
      then obtain r0 where ts: "ts = TOr # r0" by blast
      with Suc.prems OrRest have f1: "8 * length r0 + rank AndTest \<le> n" by simp
      show ?thesis
      proof (cases "parse_nt n AndTest r0")
        case (Inl e)
        with Suc.IH [OF f1] OrRest ts show ?thesis by simp
      next
        case (Inr lr)
        obtain y r1 where lr: "lr = (y, r1)" by (cases lr)
        from parse_nt_consumes [of n AndTest r0 y r1] Inr lr have "length r1 < length r0" by simp
        with Suc.prems OrRest ts have "8 * length r1 + rank (OrRest (BoolOr l y)) \<le> n" by simp
        from Suc.IH [OF this] Inr lr OrRest ts show ?thesis by simp
      qed
    next
      case False
      with OrRest show ?thesis by (auto split: list.splits token.splits)
    qed
  next
    case AndTest
    with Suc.prems have f1: "8 * length ts + rank NotTest \<le> n" by simp
    show ?thesis
    proof (cases "parse_nt n NotTest ts")
      case (Inl e)
      with Suc.IH [OF f1] AndTest show ?thesis by simp
    next
      case (Inr lr)
      obtain l r1 where lr: "lr = (l, r1)" by (cases lr)
      from parse_nt_consumes [of n NotTest ts l r1] Inr lr have "length r1 < length ts" by simp
      with Suc.prems AndTest have "8 * length r1 + rank (AndRest l) \<le> n" by simp
      from Suc.IH [OF this] Inr lr AndTest show ?thesis by simp
    qed
  next
    case (AndRest l)
    show ?thesis
    proof (cases "\<exists>r0. ts = TAnd # r0")
      case True
      then obtain r0 where ts: "ts = TAnd # r0" by blast
      with Suc.prems AndRest have f1: "8 * length r0 + rank NotTest \<le> n" by simp
      show ?thesis
      proof (cases "parse_nt n NotTest r0")
        case (Inl e)
        with Suc.IH [OF f1] AndRest ts show ?thesis by simp
      next
        case (Inr lr)
        obtain y r1 where lr: "lr = (y, r1)" by (cases lr)
        from parse_nt_consumes [of n NotTest r0 y r1] Inr lr have "length r1 < length r0" by simp
        with Suc.prems AndRest ts have "8 * length r1 + rank (AndRest (BoolAnd l y)) \<le> n"
          by simp
        from Suc.IH [OF this] Inr lr AndRest ts show ?thesis by simp
      qed
    next
      case False
      with AndRest show ?thesis by (auto split: list.splits token.splits)
    qed
  next
    case NotTest
    show ?thesis
    proof (cases "\<exists>r0. ts = TNot # r0")
      case True
      then obtain r0 where ts: "ts = TNot # r0" by blast
      with Suc.prems NotTest have "8 * length r0 + rank NotTest \<le> n" by simp
      from Suc.IH [OF this] NotTest ts show ?thesis by (auto split: sum.splits)
    next
      case False
      from Suc.prems NotTest have "8 * length ts + rank Comparison \<le> n" by simp
      from Suc.IH [OF this] False NotTest show ?thesis
        by (auto split: list.splits token.splits)
    qed
  next
    case Comparison
    with Suc.prems have f1: "8 * length ts + rank Factor \<le> n" by simp
    show ?thesis
    proof (cases "parse_nt n Factor ts")
      case (Inl e)
      with Suc.IH [OF f1] Comparison show ?thesis by simp
    next
      case (Inr lr)
      obtain l r1 where lr: "lr = (l, r1)" by (cases lr)
      from parse_nt_consumes [of n Factor ts l r1] Inr lr have len: "length r1 < length ts"
        by simp
      show ?thesis
      proof (cases "\<exists>op r2. r1 = TCmp op # r2")
        case True
        then obtain op r2 where r1: "r1 = TCmp op # r2" by blast
        with len Suc.prems Comparison have "8 * length r2 + rank Factor \<le> n" by simp
        from Suc.IH [OF this] Inr lr r1 Comparison show ?thesis
          by (auto split: sum.splits list.splits token.splits)
      next
        case False
        with Inr lr Comparison show ?thesis by (auto split: list.splits token.splits)
      qed
    qed
  next
    case Factor
    show ?thesis
    proof (cases "\<exists>r0. ts = TInvert # r0")
      case True
      then obtain r0 where ts: "ts = TInvert # r0" by blast
      with Suc.prems Factor have "8 * length r0 + rank Factor \<le> n" by simp
      from Suc.IH [OF this] Factor ts show ?thesis by (auto split: sum.splits)
    next
      case False
      from Suc.prems Factor have "8 * length ts + rank Atom \<le> n" by simp
      from Suc.IH [OF this] False Factor show ?thesis
        by (auto split: list.splits token.splits)
    qed
  next
    case Atom
    show ?thesis
    proof (cases ts)
      case Nil
      with Atom show ?thesis by simp
    next
      case (Cons t r0)
      show ?thesis
      proof (cases "t = TLParen")
        case True
        from Suc.prems Atom Cons have "8 * length r0 + rank OrTest \<le> n" by simp
        from Suc.IH [OF this] True Atom Cons show ?thesis
          by (auto split: sum.splits list.splits token.splits simp: trailer_fuel)
      next
        case False
        with Atom Cons show ?thesis
          by (cases t) (auto split: list.splits token.splits option.splits simp: trailer_fuel)
      qed
    qed
  qed
qed

lemma next_token_error:
  "next_token c cs = Inl e \<Longrightarrow> e = Unsupported \<or> e = SyntaxError"
  by (simp add: next_token_def name_token_def split: if_split_asm sum.split_asm)

lemma tokenize_error: "tokenize s = Inl e \<Longrightarrow> e = Unsupported \<or> e = SyntaxError"
proof (induction s rule: tokenize.induct)
  case 1
  then show ?case by simp
next
  case (2 c cs)
  show ?case
  proof (cases "next_token c cs")
    case (Inl e')
    with "2.prems" next_token_error [OF Inl] show ?thesis by simp
  next
    case (Inr tk)
    obtain t k where tk: "tk = (t, k)" by (cases tk)
    with "2.prems" Inr have "tokenize (drop k cs) = Inl e"
      by (auto split: sum.splits)
    with "2.IH" Inr tk show ?thesis by simp
  qed
qed

lemma parse_never_out_of_fuel: "parse s \<noteq> Inl OutOfFuel"
proof (cases "tokenize s")
  case (Inl e)
  with tokenize_error [OF Inl] show ?thesis by (auto simp: parse_def)
next
  case (Inr ts)
  have "parse_nt (8 * length ts + 8) OrTest ts \<noteq> Inl OutOfFuel"
    by (rule parse_nt_fuel) simp
  with Inr show ?thesis by (auto simp: parse_def split: sum.splits)
qed

subsection \<open>Evaluation of single predictors\<close>

text \<open>
  Claim C2. \<^verbatim>\<open>Predictor('age').when(5, 2.0)\<close> stores the text \<^verbatim>\<open>(age == 5\<close>: the
  branch for numbers leaves out the closing parenthesis that the branches for strings
  and booleans write. \<^verbatim>\<open>predict\<close> appends \<^verbatim>\<open> & (~@touched)\<close> and the evaluation of
  \<^verbatim>\<open>(age == 5 & (~@touched)\<close> ends in a syntax error, on a table that has the column.
\<close>

theorem numeric_literal_condition_unbalanced:
  "Predictor_when (Predictor_init 0 (Some ''age'')) (PyInt 5) 2
     = Inr \<lparr>ident = 0, property_name = Some ''age'',
             conditions = [(PyStr ''(age == 5'', 2)], else_condition_supplied = False\<rparr>
   \<and> Predictor_predict
        \<lparr>ident = 0, property_name = Some ''age'',
          conditions = [(PyStr ''(age == 5'', 2)], else_condition_supplied = False\<rparr>
        \<lparr>columns = [''age''], rows = [[VInt 5]]\<rparr>
     = Inl SyntaxError"
  by (simp add: Predictor_when_def Predictor_coeff_def Predictor_init_def append_condition_def
        str_int_5 Predictor_predict_def condition_text_def df_eval_def parse_age_unbalanced)

text \<open>
  The text stored for a number never ends with a closing parenthesis, whatever the
  attribute name and the number: it ends with the last digit of the number.
\<close>

lemma str_nat_last_digit: "str_nat n \<noteq> [] \<and> last (str_nat n) \<in> set ''0123456789''"
proof -
  have d: "\<And>k. k < 10 \<Longrightarrow> ''0123456789'' ! k \<in> set ''0123456789''"
    by (rule nth_mem) simp
  show ?thesis
  proof (cases "n < 10")
    case True
    with d [of n] show ?thesis by (subst (1 2) str_nat.simps) simp
  next
    case False
    with d [of "n mod 10"] show ?thesis by (subst (1 2) str_nat.simps) simp
  qed
qed

lemma str_int_last_digit: "str_int n \<noteq> [] \<and> last (str_int n) \<in> set ''0123456789''"
  using str_nat_last_digit by (simp add: str_int_def)

lemma when_number_text_never_closed:
  assumes "Predictor_when (p\<lparr>property_name := Some name\<rparr>) (PyInt n) v = Inr p'"
  shows "\<exists>s. conditions p' = conditions p @ [(PyStr s, v)] \<and> s \<noteq> [] \<and> last s \<noteq> CHR '')''"
proof -
  let ?s = "''('' @ name @ '' == '' @ str_int n"
  from assms have "conditions p' = conditions p @ [(PyStr ?s, v)]"
    by (auto simp: Predictor_when_def Predictor_coeff_def append_condition_def)
  moreover have "last ?s = last (str_int n)"
    using str_int_last_digit [of n] by simp
  then have "last ?s \<noteq> CHR '')''"
    using str_int_last_digit [of n] by auto
  ultimately show ?thesis by blast
qed

text \<open>
  Claim C1. A predictor without attribute name stores its conditions as they are
  given, and \<^verbatim>\<open>predict\<close> appends \<^verbatim>\<open> & (~@touched)\<close> without parentheses around the
  condition. For \<^verbatim>\<open>Predictor().when('a', 1).when('a | b', 2)\<close> the second text is
  \<^verbatim>\<open>a | b & (~@touched)\<close>, which reads as \<^verbatim>\<open>a | (b & (~@touched))\<close>. On the row
  \<^verbatim>\<open>a = True, b = False\<close> both conditions hold, the first rule assigns 1 and the
  second rule assigns 2 to the row that is already matched.
\<close>

theorem later_rule_reassigns_matched_row:
  "build (Predictor_init 0 None) [When (PyStr ''a'') 1, When (PyStr ''a | b'') 2]
     = Inr \<lparr>ident = 0, property_name = None,
             conditions = [(PyStr ''a'', 1), (PyStr ''a | b'', 2)],
             else_condition_supplied = False\<rparr>
   \<and> df_eval \<lparr>columns = [''a'', ''b''], rows = [[VBool True, VBool False]]\<rparr> [False] ''a''
     = Inr [True]
   \<and> df_eval \<lparr>columns = [''a'', ''b''], rows = [[VBool True, VBool False]]\<rparr> [False] ''a | b''
     = Inr [True]
   \<and> Predictor_predict
        \<lparr>ident = 0, property_name = None,
          conditions = [(PyStr ''a'', 1), (PyStr ''a | b'', 2)],
          else_condition_supplied = False\<rparr>
        \<lparr>columns = [''a'', ''b''], rows = [[VBool True, VBool False]]\<rparr>
     = Inr [Some 2]"
  by (simp add: Predictor_when_def Predictor_coeff_def Predictor_init_def append_condition_def
        Predictor_predict_def condition_text_def df_eval_def parse_a parse_a_or_b
        parse_a_alone parse_a_or_b_alone eval_row_def assign_mask_def)

text \<open>
  Claim C5. \<^verbatim>\<open>Predictor('sex').when('M', x)\<close> stores \<^verbatim>\<open>(sex == "M")\<close> and
  \<^verbatim>\<open>Predictor('sex').when('=="M"', x)\<close> stores \<^verbatim>\<open>(sex=="M")\<close>. The two texts
  differ in white space only and parse to the same expression, so the two predictors
  give the same result (the same column, or the same error) on every table.
\<close>

theorem equality_shorthand_equivalence:
  "\<exists>p1 p2.
     Predictor_when (Predictor_init oid (Some ''sex'')) (PyStr ''M'') x = Inr p1
   \<and> Predictor_when (Predictor_init oid (Some ''sex''))
        (PyStr (''=='' @ [dquote] @ ''M'' @ [dquote])) x = Inr p2
   \<and> Predictor_predict p1 df = Predictor_predict p2 df"
  by (simp add: Predictor_when_def Predictor_coeff_def Predictor_init_def append_condition_def
        not_isnumeric_M Predictor_predict_def condition_text_def df_eval_def
        parse_sex_plain [simplified] parse_sex_raw [simplified])

subsection \<open>Rows are evaluated independently\<close>

lemma map_rows_length: "map_rows f xs = Inr ys \<Longrightarrow> length ys = length xs"
  by (induction xs arbitrary: ys) (auto split: sum.splits)



lemma df_eval_length:
  "df_eval df touched s = Inr msk \<Longrightarrow> length touched = length (rows df) \<Longrightarrow>
   length msk = length (rows df)"
  by (auto simp: df_eval_def split: sum.splits option.splits dest!: map_rows_length)





lemma length_assign_mask:
  "length (assign_mask outp msk v) = min (length outp) (length msk)"
  by (simp add: assign_mask_def)





text \<open>
  What holds of the short-circuit: a row that is already matched keeps its entry through
  every guarded rule. The text of a named predictor's \<^verbatim>\<open>when('M', v)\<close> is guarded;
  the raw text \<^verbatim>\<open>a | b\<close> of an unnamed predictor is not.
\<close>

lemma map_rows_nth:
  "map_rows f xs = Inr ys \<Longrightarrow> i < length xs \<Longrightarrow> f (xs ! i) = Inr (ys ! i)"
proof (induction xs arbitrary: ys i)
  case Nil
  then show ?case by simp
next
  case (Cons x xs)
  then show ?case by (cases i) (auto split: sum.splits)
qed

lemma guarded_row_unmatched:
  assumes "guarded condition" and "condition_text condition = Inr s"
    and "parse s = Inr ex" and "eval_row cols tbl ex (row, True) = Inr b"
  shows "\<not> b"
proof -
  from assms(1,2,3) consider e where "ex = BoolAnd e (Invert (Local ''touched''))"
    | "ex = Invert (Local ''touched'')"
    by (auto simp: guarded_def split: expr.splits)
  then show ?thesis
  proof cases
    case 1
    with assms(4) show ?thesis
      by (auto simp: eval_row_def split: sum.splits val.splits)
  next
    case 2
    with assms(4) show ?thesis by (auto simp: eval_row_def)
  qed
qed

lemma guarded_mask:
  assumes "guarded condition" and "condition_text condition = Inr s"
    and "df_eval df touched s = Inr msk" and "length touched = length (rows df)"
    and "i < length (rows df)" and "touched ! i"
  shows "\<not> msk ! i"
proof -
  from assms(3) obtain ex where ex: "parse s = Inr ex"
    and rows: "map_rows (eval_row (columns df) (rows df) ex) (zip (rows df) touched) = Inr msk"
    by (auto simp: df_eval_def split: sum.splits option.splits)
  from map_rows_nth [OF rows, of i] assms(4,5,6)
  have "eval_row (columns df) (rows df) ex (rows df ! i, True) = Inr (msk ! i)" by simp
  from guarded_row_unmatched [OF assms(1,2) ex this] show ?thesis .
qed

lemma matched_row_kept:
  assumes "predict_loop df rules outp touched = Inr out"
    and "length outp = length (rows df)" and "length touched = length (rows df)"
    and "i < length (rows df)" and "touched ! i"
    and "list_all (\<lambda>rule. guarded (fst rule)) rules"
  shows "out ! i = outp ! i"
  using assms
proof (induction rules arbitrary: outp touched)
  case Nil
  then show ?case by simp
next
  case (Cons rule rules)
  obtain condition v where rule: "rule = (condition, v)" by (cases rule)
  from Cons.prems(1) rule obtain s msk where
    s: "condition_text condition = Inr s" and ev: "df_eval df touched s = Inr msk"
    and loop: "predict_loop df rules (assign_mask outp msk v) (map2 (\<or>) touched msk) = Inr out"
    by (auto split: sum.splits)
  from Cons.prems(6) rule have g: "guarded condition" and gs: "list_all (\<lambda>rule. guarded (fst rule)) rules"
    by simp_all
  have lm: "length msk = length (rows df)" by (rule df_eval_length [OF ev Cons.prems(3)])
  have nm: "\<not> msk ! i" by (rule guarded_mask [OF g s ev Cons.prems(3,4,5)])
  have "out ! i = assign_mask outp msk v ! i"
  proof (rule Cons.IH [OF loop _ _ Cons.prems(4) _ gs])
    show "length (assign_mask outp msk v) = length (rows df)"
      using lm Cons.prems(2) by (simp add: length_assign_mask)
    show "length (map2 (\<or>) touched msk) = length (rows df)"
      using lm Cons.prems(3) by simp
    show "map2 (\<or>) touched msk ! i"
      using lm Cons.prems(3,4,5) by simp
  qed
  also have "\<dots> = outp ! i"
    using nm lm Cons.prems(2,4) by (simp add: assign_mask_def)
  finally show ?case .
qed

lemma guarded_sex: "guarded (PyStr (''(sex == '' @ [dquote] @ ''M'' @ [dquote] @ '')''))"
  by (simp add: guarded_def condition_text_def parse_sex_plain [simplified])

lemma not_guarded_a_or_b: "\<not> guarded (PyStr ''a | b'')"
  by (simp add: guarded_def condition_text_def parse_a_or_b)
















subsection \<open>Linear models\<close>

text \<open>
  Claim C4. A logistic model with intercept \<open>c\<close> and no predictor returns, on every
  table, one entry per row, and every entry is the quotient of \<open>c\<close> and \<open>1 + c\<close>
  (for \<open>c = -1\<close>, where the divisor is zero, the negative infinity that the division
  of floats gives).
\<close>

theorem logistic_without_predictors:
  "LinearModel_predict \<lparr>lm_type = LOGISTIC, intercept = Some c, predictors = []\<rparr> df
     = Inr (replicate (length (rows df))
              (if c = -1 then NegInf else Finite (c / (1 + c))))"
proof -
  have "map (\<lambda>i. fdiv (prod_skipna [(Intercept_label, replicate (length (rows df)) (Some c))] i)
                 (1 + prod_skipna [(Intercept_label, replicate (length (rows df)) (Some c))] i))
          [0..<length (rows df)]
        = replicate (length (rows df)) (fdiv c (1 + c))"
    by (rule nth_equalityI) (simp_all add: prod_skipna_def)
  moreover have "fdiv c (1 + c) = (if c = -1 then NegInf else Finite (c / (1 + c)))"
    by (auto simp: fdiv_def add_eq_0_iff)
  ultimately show ?thesis
    by (simp add: LinearModel_predict_def)
qed

text \<open>
  Claim C8, as the source has it. \<^verbatim>\<open>LinearModel.__init__\<close> stores the intercept
  without looking at it: a model with intercept \<^verbatim>\<open>None\<close> is constructed. The check is
  the first statement of \<^verbatim>\<open>predict\<close>: on such a model every call of \<^verbatim>\<open>predict\<close>
  fails with the assertion \<^verbatim>\<open>Interceipt is not specified\<close>, whatever the table and
  the predictors.
\<close>

theorem missing_intercept_rejected_by_predict:
  "LinearModel_init t None ps = Inr \<lparr>lm_type = t, intercept = None, predictors = ps\<rparr>
   \<and> LinearModel_predict \<lparr>lm_type = t, intercept = None, predictors = ps\<rparr> df
       = Inl (AssertionError ''Interceipt is not specified'')"
  by (simp add: LinearModel_init_def LinearModel_predict_def)

text \<open>
  Claim C8, as stated, fails: the construction of an additive model without intercept
  and without predictors does not raise.
\<close>

theorem missing_intercept_construction_counterexample:
  "\<not> isl (LinearModel_init ADDITIVE None [])"
  by (simp add: LinearModel_init_def)

lemma map_filter_mem:
  "p \<in> set ps \<Longrightarrow> f p = Some y \<Longrightarrow> y \<in> set (List.map_filter f ps)"
  by (induction ps) (auto split: option.splits)

text \<open>
  Claim C7. If some predictor of the model names an attribute that is not a column of
  the table, \<^verbatim>\<open>predict\<close> raises an assertion error and returns no column; when the
  model has an intercept, it is the assertion \<^verbatim>\<open>Predictor variables not in df\<close>
  (without intercept, the assertion on the intercept comes first). The source has one
  kind of error for all its checks, Python's \<^verbatim>\<open>AssertionError\<close>.
\<close>

theorem unknown_attribute_fails:
  assumes "p \<in> set (predictors m)" and "property_name p = Some name"
    and "name \<notin> set (columns df)"
  shows "(\<exists>msg. LinearModel_predict m df = Inl (AssertionError msg))
       \<and> (intercept m \<noteq> None \<longrightarrow>
            LinearModel_predict m df = Inl (AssertionError ''Predictor variables not in df''))"
proof -
  from assms have "name \<in> set (List.map_filter property_name (predictors m))"
    by (auto intro: map_filter_mem)
  with assms(3) have "\<not> list_all (\<lambda>name. name \<in> set (columns df))
                   (List.map_filter property_name (predictors m))"
    by (auto simp: list_all_iff)
  then show ?thesis
    by (auto simp: LinearModel_predict_def split: option.splits)
qed

text \<open>
  The theorem at a model over \<^verbatim>\<open>Predictor('sex').when('M', 1.5)\<close> and a table whose
  only column is \<^verbatim>\<open>age\<close>.
\<close>

theorem unknown_attribute_fails_witness:
  "\<lparr>ident = 0, property_name = Some ''sex'',
     conditions = [(PyStr (''(sex == '' @ [dquote] @ ''M'' @ [dquote] @ '')''), 3 / 2)],
     else_condition_supplied = False\<rparr>
     \<in> set (predictors
          \<lparr>lm_type = ADDITIVE, intercept = Some (1 / 10),
            predictors =
              [\<lparr>ident = 0, property_name = Some ''sex'',
                conditions = [(PyStr (''(sex == '' @ [dquote] @ ''M'' @ [dquote] @ '')''), 3 / 2)],
                else_condition_supplied = False\<rparr>]\<rparr>)
   \<and> ''sex'' \<notin> set (columns \<lparr>columns = [''age''], rows = [[VInt 3], [VInt 10]]\<rparr>)
   \<and> LinearModel_predict
        \<lparr>lm_type = ADDITIVE, intercept = Some (1 / 10),
          predictors =
            [\<lparr>ident = 0, property_name = Some ''sex'',
              conditions = [(PyStr (''(sex == '' @ [dquote] @ ''M'' @ [dquote] @ '')''), 3 / 2)],
              else_condition_supplied = False\<rparr>]\<rparr>
        \<lparr>columns = [''age''], rows = [[VInt 3], [VInt 10]]\<rparr>
     = Inl (AssertionError ''Predictor variables not in df'')"
proof -
  let ?p = "\<lparr>ident = 0, property_name = Some ''sex'',
     conditions = [(PyStr (''(sex == '' @ [dquote] @ ''M'' @ [dquote] @ '')''), 3 / 2)],
     else_condition_supplied = False\<rparr>"
  let ?m = "\<lparr>lm_type = ADDITIVE, intercept = Some (1 / 10), predictors = [?p]\<rparr>"
  let ?df = "\<lparr>columns = [''age''], rows = [[VInt 3], [VInt 10]]\<rparr>"
  have h1: "?p \<in> set (predictors ?m)" by simp
  have h2: "property_name ?p = Some ''sex''" by simp
  have h3: "''sex'' \<notin> set (columns ?df)" by simp
  have h4: "intercept ?m \<noteq> None" by simp
  from unknown_attribute_fails [OF h1 h2 h3] h4
  have "LinearModel_predict ?m ?df = Inl (AssertionError ''Predictor variables not in df'')"
    by blast
  with h1 h3 show ?thesis by blast
qed

lemma none_at_set_column:
  "none_at i res \<Longrightarrow> col ! i = None \<Longrightarrow> none_at i (set_column k col res)"
  by (induction res) (auto simp: none_at_def)

lemma predict_columns_none_at:
  "predict_columns df ps ((Intercept_label, icol) # res) = Inr out \<Longrightarrow>
   \<forall>p \<in> set ps. \<exists>col. Predictor_predict p df = Inr col \<and> col ! i = None \<Longrightarrow>
   none_at i res \<Longrightarrow>
   \<exists>res'. out = (Intercept_label, icol) # res' \<and> none_at i res'"
proof (induction ps arbitrary: res)
  case Nil
  then show ?case by auto
next
  case (Cons p ps)
  from Cons.prems(2) obtain col where col: "Predictor_predict p df = Inr col" "col ! i = None"
    by auto
  with Cons.prems(1)
  have "predict_columns df ps
          ((Intercept_label, icol) # set_column (Predictor_label (ident p)) col res) = Inr out"
    by simp
  moreover have "\<forall>p \<in> set ps. \<exists>col. Predictor_predict p df = Inr col \<and> col ! i = None"
    using Cons.prems(2) by simp
  moreover have "none_at i (set_column (Predictor_label (ident p)) col res)"
    using Cons.prems(3) col(2) by (rule none_at_set_column)
  ultimately show ?case by (rule Cons.IH)
qed

lemma sum_skipna_none_at: "none_at i res \<Longrightarrow> sum_skipna res i = 0"
  by (induction res) (auto simp: none_at_def sum_skipna_def)

lemma prod_skipna_none_at: "none_at i res \<Longrightarrow> prod_skipna res i = 1"
  by (induction res) (auto simp: none_at_def prod_skipna_def)

lemma sum_skipna_Cons:
  "sum_skipna ((k, col) # res) i
     = (case col ! i of None \<Rightarrow> 0 | Some v \<Rightarrow> v) + sum_skipna res i"
  by (simp add: sum_skipna_def)

lemma prod_skipna_Cons:
  "prod_skipna ((k, col) # res) i
     = (case col ! i of None \<Rightarrow> 1 | Some v \<Rightarrow> v) * prod_skipna res i"
  by (simp add: prod_skipna_def)

text \<open>
  Claim C3. Let \<^verbatim>\<open>predict\<close> of a linear model return a column, and let \<open>i\<close> be a
  row for which every predictor of the model yields no value. Then the model has an
  intercept \<open>c\<close>, and the entry of row \<open>i\<close> is \<open>c\<close> for an additive and for a
  multiplicative model, and the logistic transform of \<open>c\<close> for a logistic model: the
  missing entries add nothing to the sum and leave the product as it is.
\<close>

theorem missing_as_identity:
  assumes "LinearModel_predict m df = Inr out"
    and "i < length (rows df)"
    and "\<forall>p \<in> set (predictors m). \<exists>col. Predictor_predict p df = Inr col \<and> col ! i = None"
  shows "\<exists>c. intercept m = Some c
           \<and> out ! i = (case lm_type m of
                          ADDITIVE \<Rightarrow> Finite c
                        | LOGISTIC \<Rightarrow> fdiv c (1 + c)
                        | MULTIPLICATIVE \<Rightarrow> Finite c)"
proof -
  from assms(1) obtain c where c: "intercept m = Some c"
    by (auto simp: LinearModel_predict_def split: option.splits)
  let ?icol = "replicate (length (rows df)) (Some c)"
  from assms(1) c obtain res where
    res: "predict_columns df (predictors m) [(Intercept_label, ?icol)] = Inr res"
    by (auto simp: LinearModel_predict_def split: if_splits sum.splits)
  have "none_at i []" by (simp add: none_at_def)
  from predict_columns_none_at [OF res assms(3) this]
  obtain res' where res': "res = (Intercept_label, ?icol) # res'" "none_at i res'" by blast
  from assms(2) have ic: "?icol ! i = Some c" by simp
  have s: "sum_skipna res i = c"
    using res' ic by (simp add: sum_skipna_Cons sum_skipna_none_at)
  have p: "prod_skipna res i = c"
    using res' ic by (simp add: prod_skipna_Cons prod_skipna_none_at)
  from assms(1) c res
  have out: "out = (case lm_type m of
                 ADDITIVE \<Rightarrow> map (\<lambda>i. Finite (sum_skipna res i)) [0..<length (rows df)]
               | LOGISTIC \<Rightarrow> map (\<lambda>i. fdiv (prod_skipna res i) (1 + prod_skipna res i))
                               [0..<length (rows df)]
               | MULTIPLICATIVE \<Rightarrow> map (\<lambda>i. Finite (prod_skipna res i)) [0..<length (rows df)])"
    by (auto simp: LinearModel_predict_def split: if_splits LinearModelType.splits)
  have "out ! i = (case lm_type m of
                          ADDITIVE \<Rightarrow> Finite c
                        | LOGISTIC \<Rightarrow> fdiv c (1 + c)
                        | MULTIPLICATIVE \<Rightarrow> Finite c)"
    using assms(2) s p by (cases "lm_type m") (simp_all add: out)
  with c show ?thesis by blast
qed

text \<open>
  The theorem at the logistic model with intercept 3 over
  \<^verbatim>\<open>Predictor('sex').when('M', 1.5)\<close> and the table with the rows \<^verbatim>\<open>M, F\<close>: the
  predictor has no value for the second row, whose entry is \<open>3 / (1 + 3)\<close>.
\<close>

theorem missing_as_identity_witness:
  "LinearModel_predict
        \<lparr>lm_type = LOGISTIC, intercept = Some 3,
          predictors =
            [\<lparr>ident = 0, property_name = Some ''sex'',
              conditions = [(PyStr (''(sex == '' @ [dquote] @ ''M'' @ [dquote] @ '')''), 3 / 2)],
              else_condition_supplied = False\<rparr>]\<rparr>
        \<lparr>columns = [''sex''], rows = [[VStr ''M''], [VStr ''F'']]\<rparr>
     = Inr [Finite (9 / 11), Finite (3 / 4)]
   \<and> Predictor_predict
        \<lparr>ident = 0, property_name = Some ''sex'',
          conditions = [(PyStr (''(sex == '' @ [dquote] @ ''M'' @ [dquote] @ '')''), 3 / 2)],
          else_condition_supplied = False\<rparr>
        \<lparr>columns = [''sex''], rows = [[VStr ''M''], [VStr ''F'']]\<rparr>
     = Inr [Some (3 / 2), None]
   \<and> [Finite (9 / 11), Finite (3 / 4)] ! 1 = fdiv 3 (1 + 3)"
proof -
  let ?p = "\<lparr>ident = 0, property_name = Some ''sex'',
     conditions = [(PyStr (''(sex == '' @ [dquote] @ ''M'' @ [dquote] @ '')''), 3 / 2)],
     else_condition_supplied = False\<rparr>"
  let ?m = "\<lparr>lm_type = LOGISTIC, intercept = Some 3, predictors = [?p]\<rparr>"
  let ?df = "\<lparr>columns = [''sex''], rows = [[VStr ''M''], [VStr ''F'']]\<rparr>"
  have pp: "Predictor_predict ?p ?df = Inr [Some (3 / 2), None]"
    by (simp add: Predictor_predict_def condition_text_def df_eval_def eval_row_def
          assign_mask_def parse_sex_plain [simplified])
  have mp: "LinearModel_predict ?m ?df = Inr [Finite (9 / 11), Finite (3 / 4)]"
    using pp by (simp add: LinearModel_predict_def prod_skipna_def upt_rec fdiv_def)
  have h2: "(1::nat) < length (rows ?df)" by simp
  have h3: "\<forall>p \<in> set (predictors ?m). \<exists>col. Predictor_predict p ?df = Inr col \<and> col ! 1 = None"
    using pp by simp
  from missing_as_identity [OF mp h2 h3]
  have "[Finite (9 / 11), Finite (3 / 4)] ! 1 = fdiv 3 (1 + 3)" by simp
  with mp pp show ?thesis by blast
qed

end
